theory Spec2Isabelle
  imports Complex_Main
begin

text \<open>
  The script \<^verbatim>\<open>mgraphics_image_rendering.js\<close> draws a frame and a label, either directly
  into the visible MGraphics context or once into an upscaled off-screen context whose
  image it keeps and draws back at the inverse scale on every later \<^verbatim>\<open>paint\<close>. This
  theory embeds its functions, in the order of the file, and proves properties of its
  cache, its transforms and its handlers.
\<close>

section \<open>JavaScript numbers\<close>

text \<open>
  The script computes with JavaScript numbers. A finite number is modelled by the real it
  denotes (rounding and the sign of zero are not tracked); the three special values are
  kept, because \<^verbatim>\<open>Math.min\<close>, \<^verbatim>\<open>Math.max\<close>, \<^verbatim>\<open>==\<close> and the arithmetic operators treat
  them apart: every operation with a NaN operand yields NaN, and NaN equals nothing.
\<close>

datatype jsnum = Fin real | PInf | NInf | NaN

fun js_neg :: "jsnum \<Rightarrow> jsnum" where
  "js_neg (Fin a) = Fin (- a)"
| "js_neg PInf = NInf"
| "js_neg NInf = PInf"
| "js_neg NaN = NaN"

fun js_add :: "jsnum \<Rightarrow> jsnum \<Rightarrow> jsnum" where
  "js_add NaN _ = NaN"
| "js_add _ NaN = NaN"
| "js_add (Fin a) (Fin b) = Fin (a + b)"
| "js_add PInf NInf = NaN"
| "js_add NInf PInf = NaN"
| "js_add PInf _ = PInf"
| "js_add NInf _ = NInf"
| "js_add (Fin a) b = b"

definition js_sub :: "jsnum \<Rightarrow> jsnum \<Rightarrow> jsnum" where
  "js_sub a b = js_add a (js_neg b)"

text \<open>The sign of a non-NaN number: \<open>-1\<close>, \<open>0\<close> or \<open>1\<close>.\<close>

fun js_sign :: "jsnum \<Rightarrow> int" where
  "js_sign (Fin a) = (if a < 0 then - 1 else if a = 0 then 0 else 1)"
| "js_sign PInf = 1"
| "js_sign NInf = - 1"
| "js_sign NaN = 0"

definition signed_inf :: "int \<Rightarrow> jsnum" where
  "signed_inf s = (if s < 0 then NInf else PInf)"

fun js_mul :: "jsnum \<Rightarrow> jsnum \<Rightarrow> jsnum" where
  "js_mul NaN _ = NaN"
| "js_mul _ NaN = NaN"
| "js_mul (Fin a) (Fin b) = Fin (a * b)"
| "js_mul a b =
     (if js_sign a = 0 \<or> js_sign b = 0 then NaN else signed_inf (js_sign a * js_sign b))"

text \<open>
  Division: a finite non-zero number over zero is an infinity (of the sign of the
  dividend, the zero being taken as \<open>+0\<close>), zero over zero and infinity over infinity
  are NaN, a finite number over an infinity is zero.
\<close>

fun js_div :: "jsnum \<Rightarrow> jsnum \<Rightarrow> jsnum" where
  "js_div NaN _ = NaN"
| "js_div _ NaN = NaN"
| "js_div (Fin a) (Fin b) =
     (if b = 0 then (if a = 0 then NaN else signed_inf (js_sign (Fin a))) else Fin (a / b))"
| "js_div (Fin a) _ = Fin 0"
| "js_div a (Fin b) = signed_inf (js_sign a * (if b < 0 then - 1 else 1))"
| "js_div a b = NaN"

text \<open>\<^verbatim>\<open>a <= b\<close> on numbers: false as soon as an operand is NaN.\<close>

fun js_le :: "jsnum \<Rightarrow> jsnum \<Rightarrow> bool" where
  "js_le NaN _ = False"
| "js_le _ NaN = False"
| "js_le NInf _ = True"
| "js_le _ PInf = True"
| "js_le (Fin a) (Fin b) = (a \<le> b)"
| "js_le _ _ = False"

text \<open>\<^verbatim>\<open>a == b\<close> on numbers.\<close>

fun js_eq :: "jsnum \<Rightarrow> jsnum \<Rightarrow> bool" where
  "js_eq NaN _ = False"
| "js_eq _ NaN = False"
| "js_eq a b = (a = b)"

text \<open>\<^verbatim>\<open>Math.min\<close> and \<^verbatim>\<open>Math.max\<close> of two arguments.\<close>

fun Math_min :: "jsnum \<Rightarrow> jsnum \<Rightarrow> jsnum" where
  "Math_min NaN _ = NaN"
| "Math_min _ NaN = NaN"
| "Math_min a b = (if js_le a b then a else b)"

fun Math_max :: "jsnum \<Rightarrow> jsnum \<Rightarrow> jsnum" where
  "Math_max NaN _ = NaN"
| "Math_max _ NaN = NaN"
| "Math_max a b = (if js_le a b then b else a)"

section \<open>The host's drawing contexts\<close>

text \<open>
  An MGraphics context is an object of the host, not of the script. What the script can
  observe or cause is kept: the size it reads, the transform matrix it saves, replaces
  and resets, and the calls it issues, logged in order with their arguments. The
  transform follows the Cairo convention of the host's API: \<^verbatim>\<open>scale\<close> and
  \<^verbatim>\<open>translate\<close> act on the user space of the current matrix.
\<close>

datatype matrix = Matrix (xx: jsnum) (xy: jsnum) (yx: jsnum) (yy: jsnum) (x0: jsnum) (y0: jsnum)

definition identity_m :: matrix where
  "identity_m = Matrix (Fin 1) (Fin 0) (Fin 0) (Fin 1) (Fin 0) (Fin 0)"

definition scale_m :: "jsnum \<Rightarrow> jsnum \<Rightarrow> matrix \<Rightarrow> matrix" where
  "scale_m sx sy m =
     Matrix (js_mul (xx m) sx) (js_mul (xy m) sy) (js_mul (yx m) sx) (js_mul (yy m) sy)
       (x0 m) (y0 m)"

definition translate_m :: "jsnum \<Rightarrow> jsnum \<Rightarrow> matrix \<Rightarrow> matrix" where
  "translate_m tx ty m =
     Matrix (xx m) (xy m) (yx m) (yy m)
       (js_add (js_add (js_mul (xx m) tx) (js_mul (xy m) ty)) (x0 m))
       (js_add (js_add (js_mul (yx m) tx) (js_mul (yy m) ty)) (y0 m))"

text \<open>
  A colour is the array \<^verbatim>\<open>max.getcolor\<close> returns. An \<^verbatim>\<open>Image\<close> made from a context
  is the snapshot of that context: its size, its matrix and what was drawn into it.
\<close>

type_synonym color = "jsnum list"

datatype cmd =
    Rectangle jsnum jsnum jsnum jsnum
  | SetSourceRgba color
  | Fill
  | FillPreserve
  | Stroke
  | SetLineWidth jsnum
  | Scale jsnum jsnum
  | Translate jsnum jsnum
  | SetMatrix matrix
  | IdentityMatrix
  | SelectFontFace string
  | SetFontSize jsnum
  | MoveTo jsnum jsnum
  | ShowText string
  | ImageSurfaceDraw image
and image =
    MkImage (img_size: "jsnum \<times> jsnum") (img_matrix: matrix) (img_cmds: "cmd list")

record mgctx =
  size_mg :: "jsnum \<times> jsnum"
  matrix_mg :: matrix
  cmds :: "cmd list"

text \<open>\<^verbatim>\<open>new MGraphics(w, h)\<close>: a fresh context of the requested size.\<close>

definition new_MGraphics :: "jsnum \<Rightarrow> jsnum \<Rightarrow> mgctx" where
  "new_MGraphics w h = \<lparr>size_mg = (w, h), matrix_mg = identity_m, cmds = []\<rparr>"

text \<open>\<^verbatim>\<open>new Image(mg)\<close>.\<close>

definition new_Image :: "mgctx \<Rightarrow> image" where
  "new_Image mg = MkImage (size_mg mg) (matrix_mg mg) (cmds mg)"

definition emit :: "cmd \<Rightarrow> mgctx \<Rightarrow> mgctx" where
  "emit c mg = mg\<lparr>cmds := cmds mg @ [c]\<rparr>"

definition rectangle :: "jsnum \<Rightarrow> jsnum \<Rightarrow> jsnum \<Rightarrow> jsnum \<Rightarrow> mgctx \<Rightarrow> mgctx" where
  "rectangle x y w h = emit (Rectangle x y w h)"

definition set_source_rgba :: "color \<Rightarrow> mgctx \<Rightarrow> mgctx" where
  "set_source_rgba c = emit (SetSourceRgba c)"

definition fill :: "mgctx \<Rightarrow> mgctx" where
  "fill = emit Fill"

definition fill_preserve :: "mgctx \<Rightarrow> mgctx" where
  "fill_preserve = emit FillPreserve"

definition stroke :: "mgctx \<Rightarrow> mgctx" where
  "stroke = emit Stroke"

definition set_line_width :: "jsnum \<Rightarrow> mgctx \<Rightarrow> mgctx" where
  "set_line_width w = emit (SetLineWidth w)"

definition select_font_face :: "string \<Rightarrow> mgctx \<Rightarrow> mgctx" where
  "select_font_face f = emit (SelectFontFace f)"

definition set_font_size :: "jsnum \<Rightarrow> mgctx \<Rightarrow> mgctx" where
  "set_font_size n = emit (SetFontSize n)"

definition move_to :: "jsnum \<Rightarrow> jsnum \<Rightarrow> mgctx \<Rightarrow> mgctx" where
  "move_to x y = emit (MoveTo x y)"

definition show_text :: "string \<Rightarrow> mgctx \<Rightarrow> mgctx" where
  "show_text s = emit (ShowText s)"

definition image_surface_draw :: "image \<Rightarrow> mgctx \<Rightarrow> mgctx" where
  "image_surface_draw img = emit (ImageSurfaceDraw img)"

definition scale :: "jsnum \<Rightarrow> jsnum \<Rightarrow> mgctx \<Rightarrow> mgctx" where
  "scale sx sy mg = emit (Scale sx sy) (mg\<lparr>matrix_mg := scale_m sx sy (matrix_mg mg)\<rparr>)"

definition translate :: "jsnum \<Rightarrow> jsnum \<Rightarrow> mgctx \<Rightarrow> mgctx" where
  "translate tx ty mg = emit (Translate tx ty) (mg\<lparr>matrix_mg := translate_m tx ty (matrix_mg mg)\<rparr>)"

definition get_matrix :: "mgctx \<Rightarrow> matrix" where
  "get_matrix mg = matrix_mg mg"

definition set_matrix :: "matrix \<Rightarrow> mgctx \<Rightarrow> mgctx" where
  "set_matrix m mg = emit (SetMatrix m) (mg\<lparr>matrix_mg := m\<rparr>)"

definition identity_matrix :: "mgctx \<Rightarrow> mgctx" where
  "identity_matrix mg = emit IdentityMatrix (mg\<lparr>matrix_mg := identity_m\<rparr>)"

section \<open>The script\<close>

text \<open>
  What the script takes from its environment: the theme colours of \<^verbatim>\<open>max.getcolor\<close>,
  the host's \<^verbatim>\<open>text_measure\<close> (its answer may depend on the context measured in) and
  the language's \<^verbatim>\<open>parseInt\<close>. An argument of a message is a number or a symbol; a
  handler called with no argument receives \<^verbatim>\<open>undefined\<close>.
\<close>

datatype jsval = JNum jsnum | JStr string | JUndefined

record env =
  getcolor :: "string \<Rightarrow> color"
  text_measure :: "mgctx \<Rightarrow> string \<Rightarrow> jsnum \<times> jsnum"
  parseInt :: "jsval \<Rightarrow> jsnum"

text \<open>
  The script's globals, and what it has caused so far: the visible context
  \<^verbatim>\<open>mgraphics\<close>, the variables \<^verbatim>\<open>cachedImg\<close> (\<open>None\<close> is \<^verbatim>\<open>null\<close>), \<^verbatim>\<open>imgScale\<close>,
  \<^verbatim>\<open>idle\<close> and \<^verbatim>\<open>useImage\<close> (both only ever tested for truth: \<^verbatim>\<open>0\<close> is \<open>False\<close>,
  \<^verbatim>\<open>1\<close> is \<open>True\<close>), the messages sent with \<^verbatim>\<open>outlet\<close>, the number of
  \<^verbatim>\<open>mgraphics.redraw()\<close> requests, and the sizes passed to \<^verbatim>\<open>new MGraphics\<close>.
\<close>

record script =
  mgraphics :: mgctx
  cachedImg :: "image option"
  imgScale :: jsnum
  idle :: bool
  useImage :: bool
  outlets :: "(nat \<times> string) list"
  redraws :: nat
  allocs :: "(jsnum \<times> jsnum) list"

text \<open>
  The state once the script is loaded: \<^verbatim>\<open>mgraphics.init()\<close>, \<^verbatim>\<open>cachedImg = null\<close>,
  \<^verbatim>\<open>imgScale = 2\<close>, \<^verbatim>\<open>idle = 0\<close>, \<^verbatim>\<open>useImage = 1\<close>. The host gives the visible context
  its size.
\<close>

definition init :: "jsnum \<times> jsnum \<Rightarrow> script" where
  "init sz =
     \<lparr>mgraphics = \<lparr>size_mg = sz, matrix_mg = identity_m, cmds = []\<rparr>,
      cachedImg = None, imgScale = Fin 2, idle = False, useImage = True,
      outlets = [], redraws = 0, allocs = []\<rparr>"

definition outlet :: "nat \<Rightarrow> string \<Rightarrow> script \<Rightarrow> script" where
  "outlet n m st = st\<lparr>outlets := outlets st @ [(n, m)]\<rparr>"

definition redraw :: "script \<Rightarrow> script" where
  "redraw st = st\<lparr>redraws := Suc (redraws st)\<rparr>"

text \<open>
  \<^verbatim>\<open>drawStuff(mg)\<close> is called with the visible context itself or with a context the
  caller has just made. The argument is a reference: a call on \<open>Screen\<close> changes
  \<^verbatim>\<open>mgraphics\<close>, a call on \<open>Offscreen\<close> changes the caller's object.
\<close>

datatype target = Screen | Offscreen mgctx

fun deref :: "target \<times> script \<Rightarrow> mgctx" where
  "deref (Screen, st) = mgraphics st"
| "deref (Offscreen mg, st) = mg"

fun call :: "(mgctx \<Rightarrow> mgctx) \<Rightarrow> target \<times> script \<Rightarrow> target \<times> script" where
  "call f (Screen, st) = (Screen, st\<lparr>mgraphics := f (mgraphics st)\<rparr>)"
| "call f (Offscreen mg, st) = (Offscreen (f mg), st)"

text \<open>The local \<^verbatim>\<open>_size\<close> of the source is \<open>size0\<close> here.\<close>

definition drawStuff :: "env \<Rightarrow> target \<Rightarrow> script \<Rightarrow> target \<times> script" where
  "drawStuff e mg st =
     (let size0 = size_mg (mgraphics st);
          p = call (set_line_width (Fin 1)) (mg, st);
          mtx = get_matrix (deref p);
          p = call (translate (Fin (3/2)) (Fin (3/2))) p;
          p = call (rectangle (Fin 0) (Fin 0) (js_sub (fst size0) (Fin 3))
                (js_sub (snd size0) (Fin 3))) p;
          p = call (set_source_rgba (getcolor e ''live_lcd_bg'')) p;
          p = call fill_preserve p;
          p = call (set_source_rgba (getcolor e ''live_lcd_control_fg'')) p;
          p = call stroke p;
          p = call (set_matrix mtx) p;
          str = ''A quick brown fox jumps over the lazy dog.'';
          p = call (select_font_face ''Ableton Sans Medium'') p;
          p = call (set_font_size (Fin 10)) p;
          txtsize = text_measure e (deref p) str;
          p = call (move_to (Fin 5)
                (js_div (js_add (snd size0) (js_div (snd txtsize) (Fin 2))) (Fin 2))) p;
          p = call (set_source_rgba (getcolor e ''live_lcd_control_fg_alt'')) p;
          p = call (show_text str) p
      in (fst p, outlet 1 ''bang'' (snd p)))"

definition on_screen :: "(mgctx \<Rightarrow> mgctx) \<Rightarrow> script \<Rightarrow> script" where
  "on_screen f st = st\<lparr>mgraphics := f (mgraphics st)\<rparr>"

text \<open>
  The cache miss of \<^verbatim>\<open>paint\<close>: the body of \<^verbatim>\<open>if ( ! cachedImg )\<close>. An \<^verbatim>\<open>Image\<close> is an
  object, so \<^verbatim>\<open>cachedImg\<close> is truthy once assigned.
\<close>

definition build_cache :: "env \<Rightarrow> script \<Rightarrow> script" where
  "build_cache e st =
     (let w = js_mul (fst (size_mg (mgraphics st))) (imgScale st);
          h = js_mul (snd (size_mg (mgraphics st))) (imgScale st);
          tmp_mg = new_MGraphics w h;
          st = st\<lparr>allocs := allocs st @ [(w, h)]\<rparr>;
          tmp_mg = scale (imgScale st) (imgScale st) tmp_mg;
          (tmp, st) = drawStuff e (Offscreen tmp_mg) st
      in st\<lparr>cachedImg := Some (new_Image (deref (tmp, st)))\<rparr>)"

text \<open>
  \<^verbatim>\<open>paint\<close>. When \<^verbatim>\<open>image_surface_draw\<close> is reached \<^verbatim>\<open>cachedImg\<close> holds an image (it
  held one or the miss has just stored one), so the \<open>None\<close> case there is never taken.
\<close>

definition paint :: "env \<Rightarrow> script \<Rightarrow> script" where
  "paint e st =
     (let st = on_screen (rectangle (Fin 0) (Fin 0) (fst (size_mg (mgraphics st)))
                 (snd (size_mg (mgraphics st)))) st;
          st = on_screen (set_source_rgba (getcolor e ''live_lcd_bg'')) st;
          st = on_screen fill st;
          st = (if useImage st then
                  (let st = (if cachedImg st = None then build_cache e st else st);
                       st = on_screen (scale (js_div (Fin 1) (imgScale st))
                              (js_div (Fin 1) (imgScale st))) st;
                       st = (case cachedImg st of
                               Some img \<Rightarrow> on_screen (image_surface_draw img) st
                             | None \<Rightarrow> st);
                       st = on_screen identity_matrix st
                   in st)
                else snd (drawStuff e Screen st));
          st = (if idle st then
                  (let r_size = Fin 5;
                       st = on_screen (set_source_rgba
                              (getcolor e ''live_active_automation'')) st;
                       st = on_screen (rectangle
                              (js_sub (fst (size_mg (mgraphics st))) (js_mul (Fin 2) r_size))
                              (js_div (js_sub (snd (size_mg (mgraphics st))) r_size) (Fin 2))
                              r_size r_size) st;
                       st = on_screen fill st
                   in st)
                else st)
      in outlet 0 ''bang'' st)"

definition msg_float :: "jsnum \<Rightarrow> script \<Rightarrow> script" where
  "msg_float v st =
     redraw (st\<lparr>imgScale := Math_max (Fin (1/8)) (Math_min (Fin 8) v), cachedImg := None\<rparr>)"

definition msg_int :: "jsnum \<Rightarrow> script \<Rightarrow> script" where
  "msg_int v st = msg_float v st"

definition bang :: "script \<Rightarrow> script" where
  "bang st = redraw (st\<lparr>cachedImg := None\<rparr>)"

definition onidle :: "script \<Rightarrow> script" where
  "onidle st = redraw (st\<lparr>idle := True\<rparr>)"

definition onidleout :: "script \<Rightarrow> script" where
  "onidleout st = redraw (st\<lparr>idle := False\<rparr>)"

definition direct_draw :: "env \<Rightarrow> jsval \<Rightarrow> script \<Rightarrow> script" where
  "direct_draw e v st =
     redraw (st\<lparr>useImage := js_eq (parseInt e v) (Fin 0), cachedImg := None\<rparr>)"

section \<open>Runs of the script\<close>

text \<open>
  The host calls the handlers one at a time, each to completion, and may resize the
  visible context between two calls. A state is reachable when such a run leads to it
  from the loaded script.
\<close>

definition host_resize :: "jsnum \<times> jsnum \<Rightarrow> script \<Rightarrow> script" where
  "host_resize sz st = st\<lparr>mgraphics := (mgraphics st)\<lparr>size_mg := sz\<rparr>\<rparr>"

inductive reachable :: "env \<Rightarrow> script \<Rightarrow> bool" for e :: env where
  r_init: "reachable e (init sz)"
| r_paint: "reachable e st \<Longrightarrow> reachable e (paint e st)"
| r_msg_float: "reachable e st \<Longrightarrow> reachable e (msg_float v st)"
| r_msg_int: "reachable e st \<Longrightarrow> reachable e (msg_int v st)"
| r_bang: "reachable e st \<Longrightarrow> reachable e (bang st)"
| r_onidle: "reachable e st \<Longrightarrow> reachable e (onidle st)"
| r_onidleout: "reachable e st \<Longrightarrow> reachable e (onidleout st)"
| r_direct_draw: "reachable e st \<Longrightarrow> reachable e (direct_draw e v st)"
| r_resize: "reachable e st \<Longrightarrow> reachable e (host_resize sz st)"

text \<open>How often \<^verbatim>\<open>drawStuff\<close> has run: it ends with \<^verbatim>\<open>outlet(1, "bang")\<close>.\<close>

definition draw_count :: "script \<Rightarrow> nat" where
  "draw_count st = length (filter (\<lambda>m. fst m = 1) (outlets st))"

text \<open>The scale an image was built at: the argument of the \<^verbatim>\<open>scale\<close> call that opens its drawing.\<close>

fun built_at :: "image \<Rightarrow> jsnum option" where
  "built_at (MkImage sz m (Scale sx sy # cs)) = (if sx = sy then Some sx else None)"
| "built_at (MkImage sz m cs) = None"

fun is_Scale :: "cmd \<Rightarrow> bool" where
  "is_Scale (Scale sx sy) = True"
| "is_Scale c = False"

text \<open>
  What holds of the cache between two handlers: an image is held only in cached mode, and
  it was built at the current scale factor.
\<close>

definition cache_inv :: "script \<Rightarrow> bool" where
  "cache_inv st = (case cachedImg st of None \<Rightarrow> True
     | Some img \<Rightarrow> built_at img = Some (imgScale st) \<and> useImage st)"

text \<open>The range \<open>[0.125, 8]\<close> of scale factors, in the order of JavaScript numbers.\<close>

definition in_scale_range :: "jsnum \<Rightarrow> bool" where
  "in_scale_range s = (js_le (Fin (1/8)) s \<and> js_le s (Fin 8))"

section \<open>A concrete environment\<close>

text \<open>
  \<^verbatim>\<open>parseInt\<close> of a string, as ECMAScript defines it with no radix argument: leading
  white space is skipped, a sign is read, a prefix \<^verbatim>\<open>0x\<close> selects radix 16, and the
  longest prefix of digits of the radix is the value; there is NaN when that prefix is
  empty. The value is the integer the digits denote; its rounding to a number is not
  tracked. A string here is a sequence of code units below 256, among which the white
  space is tab, line feed, vertical tab, form feed, carriage return, space and the
  no-break space.
\<close>

definition is_ws :: "char \<Rightarrow> bool" where
  "is_ws c = ((of_char c :: nat) \<in> {9, 10, 11, 12, 13, 32, 160})"

definition digit_of :: "char \<Rightarrow> nat option" where
  "digit_of c =
     (let n = (of_char c :: nat) in
      if 48 \<le> n \<and> n \<le> 57 then Some (n - 48)
      else if 97 \<le> n \<and> n \<le> 122 then Some (n - 87)
      else if 65 \<le> n \<and> n \<le> 90 then Some (n - 55)
      else None)"

fun parse_digits :: "nat \<Rightarrow> string \<Rightarrow> nat option \<Rightarrow> nat option" where
  "parse_digits r [] acc = acc"
| "parse_digits r (c # cs) acc =
     (case digit_of c of
        None \<Rightarrow> acc
      | Some d \<Rightarrow>
          if d < r then parse_digits r cs (Some ((case acc of None \<Rightarrow> 0 | Some n \<Rightarrow> n) * r + d))
          else acc)"

definition parseInt_str :: "string \<Rightarrow> jsnum" where
  "parseInt_str s =
     (let s1 = dropWhile is_ws s;
          (sign, s2) = (case s1 of
                          [] \<Rightarrow> (1, s1)
                        | c # t \<Rightarrow> if c = CHR ''-'' then (- 1, t)
                                   else if c = CHR ''+'' then (1, t) else (1, s1));
          (r, s3) = (case s2 of
                       c # x # t \<Rightarrow>
                         if c = CHR ''0'' \<and> (x = CHR ''x'' \<or> x = CHR ''X'') then (16, t)
                         else (10, s2)
                     | _ \<Rightarrow> (10, s2))
      in case parse_digits r s3 None of
           None \<Rightarrow> NaN
         | Some n \<Rightarrow> Fin (sign * real n))"

text \<open>
  \<^verbatim>\<open>parseInt\<close> of a number reads the number's decimal text, which is the shortest
  decimal that rounds to the number. So this one place needs the numbers that exist:
  \<open>nearest_double y\<close> is the number nearest to a positive real \<open>y\<close>, ties going to the
  even significand (past the largest number its value is \<open>2\<^sup>1\<^sup>0\<^sup>2\<^sup>4\<close> or more, which is
  no number).
\<close>

function nbits :: "int \<Rightarrow> nat" where
  "nbits n = (if n \<le> 0 then 0 else Suc (nbits (n div 2)))"
  by pat_completeness auto
termination
  by (relation "measure nat") auto

function ndigits :: "int \<Rightarrow> nat" where
  "ndigits n = (if n < 10 then 1 else Suc (ndigits (n div 10)))"
  by pat_completeness auto
termination
  by (relation "measure nat") auto

declare nbits.simps [simp del] ndigits.simps [simp del]

definition pow2 :: "int \<Rightarrow> real" where
  "pow2 i = (if 0 \<le> i then 2 ^ nat i else 1 / 2 ^ nat (- i))"

text \<open>The \<open>e\<close> with \<open>2\<^sup>e \<le> y < 2\<^sup>e\<^sup>+\<^sup>1\<close>, for a positive \<open>y\<close>.\<close>

definition bin_exp :: "real \<Rightarrow> int" where
  "bin_exp y =
     (if 1 \<le> y then int (nbits \<lfloor>y\<rfloor>) - 1
      else - int (nbits (\<lceil>1 / y\<rceil> - 1)))"

definition nearest_double :: "real \<Rightarrow> real" where
  "nearest_double y =
     (let u = pow2 (max (bin_exp y) (- 1022) - 52);
          f = \<lfloor>y / u\<rfloor>;
          r = y / u - of_int f;
          n = (if r < 1/2 then f else if 1/2 < r then f + 1
               else if even f then f else f + 1)
      in of_int n * u)"

text \<open>The power of ten \<open>p\<close> with \<open>p \<le> y < 10 * p\<close>, for a positive \<open>y\<close>.\<close>

definition decade :: "real \<Rightarrow> real" where
  "decade y =
     (if 1 \<le> y then 10 ^ (ndigits \<lfloor>y\<rfloor> - 1)
      else (let d = ndigits \<lfloor>1 / y\<rfloor>
            in if y * 10 ^ d = 10 then 10 / 10 ^ d else 1 / 10 ^ d))"

text \<open>
  The first digit of the text of a positive number \<open>y\<close>: the first digit of \<open>y\<close>, unless
  the one-digit decimal just above \<open>y\<close> rounds to \<open>y\<close> and so is its text.
\<close>

definition text_lead :: "real \<Rightarrow> int" where
  "text_lead y =
     (let p = decade y; k = \<lfloor>y / p\<rfloor>
      in if nearest_double (of_int (k + 1) * p) = y then (if k = 9 then 1 else k + 1) else k)"

text \<open>
  The text of a number is plain when the number is zero or its magnitude is at least the
  number nearest to \<open>10\<^sup>-\<^sup>6\<close> and below \<open>10\<^sup>2\<^sup>1\<close>, and \<^verbatim>\<open>parseInt\<close> then reads its integer
  part; otherwise the text is in exponent form and \<^verbatim>\<open>parseInt\<close> reads its first digit.
  \<^verbatim>\<open>"NaN"\<close>, \<^verbatim>\<open>"Infinity"\<close> and \<^verbatim>\<open>"undefined"\<close> have no digits.
\<close>

fun parseInt_js :: "jsval \<Rightarrow> jsnum" where
  "parseInt_js (JStr s) = parseInt_str s"
| "parseInt_js (JNum (Fin x)) =
     (if x = 0 then Fin 0
      else if nearest_double (1 / 10 ^ 6) \<le> \<bar>x\<bar> \<and> \<bar>x\<bar> < 10 ^ 21
      then Fin (sgn x * of_int \<lfloor>\<bar>x\<bar>\<rfloor>)
      else Fin (sgn x * of_int (text_lead \<bar>x\<bar>)))"
| "parseInt_js (JNum n) = NaN"
| "parseInt_js JUndefined = NaN"

text \<open>A theme with four colours and a host that measures every text as 180 by 12.\<close>

definition theme :: "string \<Rightarrow> color" where
  "theme name =
     (if name = ''live_lcd_bg'' then [Fin 0, Fin 0, Fin 0, Fin 1]
      else if name = ''live_lcd_control_fg'' then [Fin 1, Fin 1, Fin 1, Fin 1]
      else if name = ''live_lcd_control_fg_alt'' then [Fin (1/2), Fin (1/2), Fin (1/2), Fin 1]
      else [Fin 1, Fin 0, Fin 0, Fin 1])"

definition env0 :: env where
  "env0 = \<lparr>getcolor = theme, text_measure = (\<lambda>mg s. (Fin 180, Fin 12)), parseInt = parseInt_js\<rparr>"

section \<open>What the drawing routine and a paint change\<close>

lemmas mg_ops = emit_def rectangle_def set_source_rgba_def fill_def fill_preserve_def stroke_def
  set_line_width_def select_font_face_def set_font_size_def move_to_def show_text_def
  image_surface_draw_def scale_def translate_def get_matrix_def set_matrix_def identity_matrix_def


lemma drawStuff_Screen:
  "\<exists>y. drawStuff e Screen st =
     (Screen, st\<lparr>mgraphics := (mgraphics st)\<lparr>cmds := cmds (mgraphics st) @
        [SetLineWidth (Fin 1), Translate (Fin (3/2)) (Fin (3/2)),
         Rectangle (Fin 0) (Fin 0) (js_sub (fst (size_mg (mgraphics st))) (Fin 3))
           (js_sub (snd (size_mg (mgraphics st))) (Fin 3)),
         SetSourceRgba (getcolor e ''live_lcd_bg''), FillPreserve,
         SetSourceRgba (getcolor e ''live_lcd_control_fg''), Stroke,
         SetMatrix (matrix_mg (mgraphics st)),
         SelectFontFace ''Ableton Sans Medium'', SetFontSize (Fin 10),
         MoveTo (Fin 5) y,
         SetSourceRgba (getcolor e ''live_lcd_control_fg_alt''),
         ShowText ''A quick brown fox jumps over the lazy dog.'']\<rparr>,
       outlets := outlets st @ [(1, ''bang'')]\<rparr>)"
  by (rule exI) (simp add: drawStuff_def Let_def mg_ops outlet_def)

lemma drawStuff_Offscreen:
  "\<exists>y. drawStuff e (Offscreen mg) st =
     (Offscreen (mg\<lparr>cmds := cmds mg @
        [SetLineWidth (Fin 1), Translate (Fin (3/2)) (Fin (3/2)),
         Rectangle (Fin 0) (Fin 0) (js_sub (fst (size_mg (mgraphics st))) (Fin 3))
           (js_sub (snd (size_mg (mgraphics st))) (Fin 3)),
         SetSourceRgba (getcolor e ''live_lcd_bg''), FillPreserve,
         SetSourceRgba (getcolor e ''live_lcd_control_fg''), Stroke,
         SetMatrix (matrix_mg mg),
         SelectFontFace ''Ableton Sans Medium'', SetFontSize (Fin 10),
         MoveTo (Fin 5) y,
         SetSourceRgba (getcolor e ''live_lcd_control_fg_alt''),
         ShowText ''A quick brown fox jumps over the lazy dog.'']\<rparr>),
       st\<lparr>outlets := outlets st @ [(1, ''bang'')]\<rparr>)"
  by (rule exI) (simp add: drawStuff_def Let_def mg_ops outlet_def)


lemma drawStuff_Screen_fields:
  "cachedImg (snd (drawStuff e Screen st)) = cachedImg st"
  "imgScale (snd (drawStuff e Screen st)) = imgScale st"
  "idle (snd (drawStuff e Screen st)) = idle st"
  "useImage (snd (drawStuff e Screen st)) = useImage st"
  "redraws (snd (drawStuff e Screen st)) = redraws st"
  "allocs (snd (drawStuff e Screen st)) = allocs st"
  "outlets (snd (drawStuff e Screen st)) = outlets st @ [(1, ''bang'')]"
  "size_mg (mgraphics (snd (drawStuff e Screen st))) = size_mg (mgraphics st)"
  "matrix_mg (mgraphics (snd (drawStuff e Screen st))) = matrix_mg (mgraphics st)"
  using drawStuff_Screen [of e st] by auto

lemma drawStuff_Offscreen_fields:
  "snd (drawStuff e (Offscreen mg) st) = st\<lparr>outlets := outlets st @ [(1, ''bang'')]\<rparr>"
  "size_mg (deref (drawStuff e (Offscreen mg) st)) = size_mg mg"
  "matrix_mg (deref (drawStuff e (Offscreen mg) st)) = matrix_mg mg"
  using drawStuff_Offscreen [of e mg st] by auto

lemma build_cache_fields:
  "mgraphics (build_cache e st) = mgraphics st"
  "imgScale (build_cache e st) = imgScale st"
  "idle (build_cache e st) = idle st"
  "useImage (build_cache e st) = useImage st"
  "redraws (build_cache e st) = redraws st"
  "outlets (build_cache e st) = outlets st @ [(1, ''bang'')]"
  "allocs (build_cache e st) = allocs st @
     [(js_mul (fst (size_mg (mgraphics st))) (imgScale st),
       js_mul (snd (size_mg (mgraphics st))) (imgScale st))]"
  by (simp_all add: build_cache_def Let_def split_beta drawStuff_Offscreen_fields)

lemma build_cache_image:
  "\<exists>y. cachedImg (build_cache e st) = Some (MkImage
     (js_mul (fst (size_mg (mgraphics st))) (imgScale st),
      js_mul (snd (size_mg (mgraphics st))) (imgScale st))
     (scale_m (imgScale st) (imgScale st) identity_m)
     [Scale (imgScale st) (imgScale st),
      SetLineWidth (Fin 1), Translate (Fin (3/2)) (Fin (3/2)),
      Rectangle (Fin 0) (Fin 0) (js_sub (fst (size_mg (mgraphics st))) (Fin 3))
        (js_sub (snd (size_mg (mgraphics st))) (Fin 3)),
      SetSourceRgba (getcolor e ''live_lcd_bg''), FillPreserve,
      SetSourceRgba (getcolor e ''live_lcd_control_fg''), Stroke,
      SetMatrix (scale_m (imgScale st) (imgScale st) identity_m),
      SelectFontFace ''Ableton Sans Medium'', SetFontSize (Fin 10),
      MoveTo (Fin 5) y,
      SetSourceRgba (getcolor e ''live_lcd_control_fg_alt''),
      ShowText ''A quick brown fox jumps over the lazy dog.''])"
proof -
  let ?s = "imgScale st"
  let ?st = "st\<lparr>allocs := allocs st @ [(js_mul (fst (size_mg (mgraphics st))) ?s,
       js_mul (snd (size_mg (mgraphics st))) ?s)]\<rparr>"
  let ?tmp = "scale ?s ?s (new_MGraphics (js_mul (fst (size_mg (mgraphics st))) ?s)
       (js_mul (snd (size_mg (mgraphics st))) ?s))"
  from drawStuff_Offscreen [of e ?tmp ?st] obtain y where
    "drawStuff e (Offscreen ?tmp) ?st = (Offscreen (?tmp\<lparr>cmds := cmds ?tmp @
        [SetLineWidth (Fin 1), Translate (Fin (3/2)) (Fin (3/2)),
         Rectangle (Fin 0) (Fin 0) (js_sub (fst (size_mg (mgraphics ?st))) (Fin 3))
           (js_sub (snd (size_mg (mgraphics ?st))) (Fin 3)),
         SetSourceRgba (getcolor e ''live_lcd_bg''), FillPreserve,
         SetSourceRgba (getcolor e ''live_lcd_control_fg''), Stroke,
         SetMatrix (matrix_mg ?tmp),
         SelectFontFace ''Ableton Sans Medium'', SetFontSize (Fin 10),
         MoveTo (Fin 5) y,
         SetSourceRgba (getcolor e ''live_lcd_control_fg_alt''),
         ShowText ''A quick brown fox jumps over the lazy dog.'']\<rparr>),
       ?st\<lparr>outlets := outlets ?st @ [(1, ''bang'')]\<rparr>)"
    by blast
  then show ?thesis
    by (intro exI [of _ y])
       (simp add: build_cache_def Let_def new_Image_def new_MGraphics_def scale_def emit_def)
qed

lemma paint_fields:
  "imgScale (paint e st) = imgScale st"
  "idle (paint e st) = idle st"
  "useImage (paint e st) = useImage st"
  "redraws (paint e st) = redraws st"
  "size_mg (mgraphics (paint e st)) = size_mg (mgraphics st)"
  by (simp_all add: paint_def Let_def on_screen_def outlet_def mg_ops build_cache_fields
        drawStuff_Screen_fields split: option.splits)

lemma paint_hit:
  assumes "useImage st" "cachedImg st = Some img"
  shows "cachedImg (paint e st) = Some img"
    and "outlets (paint e st) = outlets st @ [(0, ''bang'')]"
    and "allocs (paint e st) = allocs st"
  using assms by (simp_all add: paint_def Let_def on_screen_def outlet_def mg_ops)

lemma drawStuff_Offscreen_cong:
  "size_mg (mgraphics st) = size_mg (mgraphics st') \<Longrightarrow>
   deref (drawStuff e (Offscreen mg) st) = deref (drawStuff e (Offscreen mg) st')"
  by (simp add: drawStuff_def Let_def mg_ops)

lemma build_cache_cong:
  "size_mg (mgraphics st) = size_mg (mgraphics st') \<Longrightarrow> imgScale st = imgScale st' \<Longrightarrow>
   cachedImg (build_cache e st) = cachedImg (build_cache e st')"
  by (simp add: build_cache_def Let_def split_beta)
     (rule arg_cong [where f = new_Image], rule drawStuff_Offscreen_cong, simp)

lemma build_cache_Some:
  "cachedImg (build_cache e st) \<noteq> None"
  by (simp add: build_cache_def Let_def split_beta)

lemma paint_miss:
  assumes "useImage st" "cachedImg st = None"
  shows "cachedImg (paint e st) = cachedImg (build_cache e st)"
    and "outlets (paint e st) = outlets st @ [(1, ''bang''), (0, ''bang'')]"
    and "allocs (paint e st) = allocs (build_cache e st)"
proof -
  let ?bg = "st\<lparr>mgraphics := (mgraphics st)\<lparr>cmds := cmds (mgraphics st) @
       [Rectangle (Fin 0) (Fin 0) (fst (size_mg (mgraphics st))) (snd (size_mg (mgraphics st))),
        SetSourceRgba (getcolor e ''live_lcd_bg''), Fill]\<rparr>\<rparr>"
  have c: "cachedImg (build_cache e ?bg) = cachedImg (build_cache e st)"
    by (rule build_cache_cong) simp_all
  obtain img where i: "cachedImg (build_cache e st) = Some img"
    using build_cache_Some [of e st] by auto
  show "cachedImg (paint e st) = cachedImg (build_cache e st)"
    using assms c i
    by (simp add: paint_def Let_def on_screen_def outlet_def mg_ops build_cache_fields)
  show "outlets (paint e st) = outlets st @ [(1, ''bang''), (0, ''bang'')]"
    using assms c i
    by (simp add: paint_def Let_def on_screen_def outlet_def mg_ops build_cache_fields)
  show "allocs (paint e st) = allocs (build_cache e st)"
    using assms c i
    by (simp add: paint_def Let_def on_screen_def outlet_def mg_ops build_cache_fields)
qed

lemma paint_direct:
  assumes "\<not> useImage st"
  shows "cachedImg (paint e st) = cachedImg st"
    and "outlets (paint e st) = outlets st @ [(1, ''bang''), (0, ''bang'')]"
    and "allocs (paint e st) = allocs st"
    and "matrix_mg (mgraphics (paint e st)) = matrix_mg (mgraphics st)"
  using assms by (simp_all add: paint_def Let_def on_screen_def outlet_def mg_ops drawStuff_Screen_fields)

lemma paint_cached_matrix:
  "useImage st \<Longrightarrow> matrix_mg (mgraphics (paint e st)) = identity_m"
  by (simp add: paint_def Let_def on_screen_def outlet_def mg_ops build_cache_fields split: option.splits)

lemma draw_count_paint_hit:
  "useImage st \<Longrightarrow> cachedImg st = Some img \<Longrightarrow> draw_count (paint e st) = draw_count st"
  by (simp add: draw_count_def paint_hit)

lemma draw_count_paint_miss:
  "useImage st \<Longrightarrow> cachedImg st = None \<Longrightarrow> draw_count (paint e st) = Suc (draw_count st)"
  by (simp add: draw_count_def paint_miss)

section \<open>The cache across two paints\<close>

text \<open>
  Claim C1. In cached mode, starting with no cached image, whatever the scale factor
  (so for every scale factor in \<open>[0.125, 8]\<close>): the first \<^verbatim>\<open>paint\<close> runs
  \<^verbatim>\<open>drawStuff\<close> once and stores an image; a second \<^verbatim>\<open>paint\<close> right after it runs
  \<^verbatim>\<open>drawStuff\<close> not at all, makes no off-screen context and keeps the image. The
  drawing routine has run exactly once across the two paints.
\<close>

theorem paint_twice_draws_once:
  assumes "useImage st" and "cachedImg st = None"
  shows "draw_count (paint e st) = Suc (draw_count st) \<and>
         draw_count (paint e (paint e st)) = draw_count (paint e st) \<and>
         allocs (paint e (paint e st)) = allocs (paint e st) \<and>
         cachedImg (paint e st) \<noteq> None \<and>
         cachedImg (paint e (paint e st)) = cachedImg (paint e st)"
proof -
  obtain img where i: "cachedImg (paint e st) = Some img"
    using assms build_cache_Some [of e st] by (auto simp: paint_miss)
  have u: "useImage (paint e st)"
    using assms by (simp add: paint_fields)
  show ?thesis
    using assms i u
    by (simp add: draw_count_paint_miss draw_count_paint_hit [OF u i] paint_hit [OF u i])
qed

theorem paint_twice_draws_once_witness:
  "useImage (init (Fin 200, Fin 100)) \<and> cachedImg (init (Fin 200, Fin 100)) = None \<and>
   in_scale_range (imgScale (init (Fin 200, Fin 100))) \<and>
   draw_count (paint env0 (init (Fin 200, Fin 100))) = 1 \<and>
   draw_count (paint env0 (paint env0 (init (Fin 200, Fin 100)))) = 1"
  using paint_twice_draws_once [of "init (Fin 200, Fin 100)" env0]
  by (simp add: init_def draw_count_def in_scale_range_def)

lemma build_cache_built_at:
  "\<exists>img. cachedImg (build_cache e st) = Some img \<and> built_at img = Some (imgScale st)"
  using build_cache_image [of e st] by auto

lemmas handler_defs = msg_float_def msg_int_def bang_def onidle_def onidleout_def
  direct_draw_def host_resize_def redraw_def

lemma paint_cache_inv: "cache_inv st \<Longrightarrow> cache_inv (paint e st)"
proof (cases "useImage st")
  case False
  assume "cache_inv st"
  with False show ?thesis
    by (simp add: cache_inv_def paint_direct paint_fields split: option.splits)
next
  case u: True
  assume inv: "cache_inv st"
  show ?thesis
  proof (cases "cachedImg st")
    case None
    with u build_cache_built_at [of e st] show ?thesis
      by (auto simp: cache_inv_def paint_miss paint_fields)
  next
    case (Some img)
    with u inv show ?thesis
      by (simp add: cache_inv_def paint_hit [OF u Some] paint_fields)
  qed
qed

lemma reachable_cache_inv: "reachable e st \<Longrightarrow> cache_inv st"
proof (induction rule: reachable.induct)
  case (r_paint st)
  then show ?case by (simp add: paint_cache_inv)
qed (simp_all add: cache_inv_def init_def handler_defs split: option.splits)

lemma reachable_identity: "reachable e st \<Longrightarrow> matrix_mg (mgraphics st) = identity_m"
proof (induction rule: reachable.induct)
  case (r_paint st)
  then show ?case
    by (cases "useImage st") (simp_all add: paint_cached_matrix paint_direct)
qed (simp_all add: init_def handler_defs)

section \<open>The cached image and the scale factor\<close>

text \<open>
  Claim C2. In every state the script reaches, a cached image is present only if it was
  built at the current value of \<^verbatim>\<open>imgScale\<close>. The handlers \<^verbatim>\<open>msg_float\<close>,
  \<^verbatim>\<open>msg_int\<close>, \<^verbatim>\<open>bang\<close> and \<^verbatim>\<open>direct_draw\<close> each leave \<^verbatim>\<open>cachedImg\<close> absent,
  and a handler runs to completion before the repaint it asks for.
\<close>

theorem cache_coherent:
  assumes "reachable e st"
  shows "(\<forall>img. cachedImg st = Some img \<longrightarrow> built_at img = Some (imgScale st)) \<and>
         cachedImg (msg_float v st) = None \<and> cachedImg (msg_int v st) = None \<and>
         cachedImg (bang st) = None \<and> cachedImg (direct_draw e a st) = None"
  using reachable_cache_inv [OF assms]
  by (auto simp: cache_inv_def handler_defs)

lemma init_paint_image:
  "cachedImg (paint env0 (init (Fin 200, Fin 100))) = Some (MkImage (Fin 400, Fin 200)
     (Matrix (Fin 2) (Fin 0) (Fin 0) (Fin 2) (Fin 0) (Fin 0))
     [Scale (Fin 2) (Fin 2), SetLineWidth (Fin 1),
      Translate (Fin (3 / 2)) (Fin (3 / 2)),
      Rectangle (Fin 0) (Fin 0) (Fin 197) (Fin 97),
      SetSourceRgba [Fin 0, Fin 0, Fin 0, Fin 1], FillPreserve,
      SetSourceRgba [Fin 1, Fin 1, Fin 1, Fin 1], Stroke,
      SetMatrix (Matrix (Fin 2) (Fin 0) (Fin 0) (Fin 2) (Fin 0) (Fin 0)),
      SelectFontFace ''Ableton Sans Medium'', SetFontSize (Fin 10),
      MoveTo (Fin 5) (Fin 53),
      SetSourceRgba [Fin (1 / 2), Fin (1 / 2), Fin (1 / 2), Fin 1],
      ShowText ''A quick brown fox jumps over the lazy dog.''])"
  by (simp add: paint_def init_def Let_def on_screen_def outlet_def mg_ops build_cache_def
        drawStuff_def env0_def theme_def new_MGraphics_def new_Image_def split_beta
        scale_m_def identity_m_def js_sub_def)

theorem cache_coherent_witness:
  "reachable env0 (paint env0 (init (Fin 200, Fin 100))) \<and>
   imgScale (paint env0 (init (Fin 200, Fin 100))) = Fin 2 \<and>
   map_option built_at (cachedImg (paint env0 (init (Fin 200, Fin 100)))) = Some (Some (Fin 2)) \<and>
   cachedImg (msg_float (Fin 3) (paint env0 (init (Fin 200, Fin 100)))) = None"
proof -
  have r: "reachable env0 (paint env0 (init (Fin 200, Fin 100)))"
    by (intro reachable.intros)
  have s: "imgScale (init (Fin 200, Fin 100)) = Fin 2"
    by (simp add: init_def)
  show ?thesis
    using r s cache_coherent [OF r, of "Fin 3"]
    by (simp add: init_paint_image paint_fields)
qed

section \<open>The cache miss\<close>

text \<open>
  Claim C3. On a cache miss (cached mode, no image), with \<open>(w, h)\<close> the current size of
  the visible context and \<open>s\<close> the scale factor, \<^verbatim>\<open>paint\<close> makes one off-screen context
  of size \<open>(w * s, h * s)\<close>; the calls recorded in the image made from it are
  \<^verbatim>\<open>scale(s, s)\<close> first and once, then those of the drawing routine, which has run once.
\<close>

theorem cache_miss_builds_upscaled:
  assumes "useImage st" and "cachedImg st = None"
  shows "\<exists>y. cachedImg (paint e st) = Some (MkImage
           (js_mul (fst (size_mg (mgraphics st))) (imgScale st),
            js_mul (snd (size_mg (mgraphics st))) (imgScale st))
           (scale_m (imgScale st) (imgScale st) identity_m)
           [Scale (imgScale st) (imgScale st),
            SetLineWidth (Fin 1), Translate (Fin (3/2)) (Fin (3/2)),
            Rectangle (Fin 0) (Fin 0) (js_sub (fst (size_mg (mgraphics st))) (Fin 3))
              (js_sub (snd (size_mg (mgraphics st))) (Fin 3)),
            SetSourceRgba (getcolor e ''live_lcd_bg''), FillPreserve,
            SetSourceRgba (getcolor e ''live_lcd_control_fg''), Stroke,
            SetMatrix (scale_m (imgScale st) (imgScale st) identity_m),
            SelectFontFace ''Ableton Sans Medium'', SetFontSize (Fin 10),
            MoveTo (Fin 5) y,
            SetSourceRgba (getcolor e ''live_lcd_control_fg_alt''),
            ShowText ''A quick brown fox jumps over the lazy dog.'']) \<and>
         allocs (paint e st) = allocs st @
           [(js_mul (fst (size_mg (mgraphics st))) (imgScale st),
             js_mul (snd (size_mg (mgraphics st))) (imgScale st))] \<and>
         draw_count (paint e st) = Suc (draw_count st)"
  using assms build_cache_image [of e st]
  by (simp add: paint_miss build_cache_fields draw_count_paint_miss)

theorem cache_miss_builds_upscaled_witness:
  "useImage (init (Fin 200, Fin 100)) \<and> cachedImg (init (Fin 200, Fin 100)) = None \<and>
   map_option img_size (cachedImg (paint env0 (init (Fin 200, Fin 100)))) = Some (Fin 400, Fin 200) \<and>
   map_option (filter is_Scale \<circ> img_cmds) (cachedImg (paint env0 (init (Fin 200, Fin 100))))
     = Some [Scale (Fin 2) (Fin 2)] \<and>
   allocs (paint env0 (init (Fin 200, Fin 100))) = [(Fin 400, Fin 200)]"
proof -
  have i: "useImage (init (Fin 200, Fin 100))" "cachedImg (init (Fin 200, Fin 100)) = None"
    "imgScale (init (Fin 200, Fin 100)) = Fin 2" "allocs (init (Fin 200, Fin 100)) = []"
    "size_mg (mgraphics (init (Fin 200, Fin 100))) = (Fin 200, Fin 100)"
    by (simp_all add: init_def)
  show ?thesis
    using cache_miss_builds_upscaled [OF i(1,2), of env0]
    by (auto simp: i)
qed

section \<open>The visible transform after a paint\<close>

text \<open>
  Claim C4. The script leaves no transform on the visible context between two handlers,
  so every \<^verbatim>\<open>paint\<close> starts from the transform the context has in a state the script
  reaches. From every such state, after a \<^verbatim>\<open>paint\<close> in cached mode the transform of the
  visible context equals the one before the call: the \<^verbatim>\<open>scale(1/s, 1/s)\<close> applied to
  draw the image is undone by \<^verbatim>\<open>identity_matrix()\<close>.
\<close>

theorem paint_cached_transform_roundtrip:
  assumes "reachable e st" and "useImage st"
  shows "matrix_mg (mgraphics (paint e st)) = matrix_mg (mgraphics st) \<and>
         matrix_mg (mgraphics (paint e st)) = identity_m"
  using assms reachable_identity [of e st] by (simp add: paint_cached_matrix)

theorem paint_cached_transform_roundtrip_witness:
  "reachable env0 (msg_float (Fin 3) (init (Fin 200, Fin 100))) \<and>
   useImage (msg_float (Fin 3) (init (Fin 200, Fin 100))) \<and>
   matrix_mg (mgraphics (paint env0 (msg_float (Fin 3) (init (Fin 200, Fin 100)))))
     = matrix_mg (mgraphics (msg_float (Fin 3) (init (Fin 200, Fin 100))))"
proof -
  have r: "reachable env0 (msg_float (Fin 3) (init (Fin 200, Fin 100)))"
    by (intro reachable.intros)
  have u: "useImage (msg_float (Fin 3) (init (Fin 200, Fin 100)))"
    by (simp add: msg_float_def redraw_def init_def)
  show ?thesis
    using r u paint_cached_transform_roundtrip [OF r u] by simp
qed

section \<open>The drawing routine\<close>

text \<open>
  Claim C5. Whatever context \<^verbatim>\<open>drawStuff\<close> is given, the visible one or an off-screen
  one of any size, the calls it issues on it are the same, and its one rectangle is
  \<open>(0, 0, w - 3, h - 3)\<close> with \<open>(w, h)\<close> the size of the visible context
  \<^verbatim>\<open>mgraphics\<close>: the size of the target is not read, so the scale factor enters once.
\<close>

theorem drawStuff_rectangle_logical:
  "\<exists>y. cmds (deref (drawStuff e mg st)) = cmds (deref (mg, st)) @
        [SetLineWidth (Fin 1), Translate (Fin (3/2)) (Fin (3/2)),
         Rectangle (Fin 0) (Fin 0) (js_sub (fst (size_mg (mgraphics st))) (Fin 3))
           (js_sub (snd (size_mg (mgraphics st))) (Fin 3)),
         SetSourceRgba (getcolor e ''live_lcd_bg''), FillPreserve,
         SetSourceRgba (getcolor e ''live_lcd_control_fg''), Stroke,
         SetMatrix (matrix_mg (deref (mg, st))),
         SelectFontFace ''Ableton Sans Medium'', SetFontSize (Fin 10),
         MoveTo (Fin 5) y,
         SetSourceRgba (getcolor e ''live_lcd_control_fg_alt''),
         ShowText ''A quick brown fox jumps over the lazy dog.'']"
proof (cases mg)
  case Screen
  with drawStuff_Screen [of e st] show ?thesis by auto
next
  case (Offscreen c)
  with drawStuff_Offscreen [of e c st] show ?thesis by auto
qed

theorem drawStuff_rectangle_logical_witness:
  "cmds (deref (drawStuff env0
      (Offscreen \<lparr>size_mg = (Fin 400, Fin 200), matrix_mg = identity_m, cmds = []\<rparr>)
      (init (Fin 200, Fin 100)))) ! 2 = Rectangle (Fin 0) (Fin 0) (Fin 197) (Fin 97) \<and>
   cmds (deref (drawStuff env0 Screen (init (Fin 200, Fin 100)))) ! 2
     = Rectangle (Fin 0) (Fin 0) (Fin 197) (Fin 97)"
  using drawStuff_rectangle_logical [of env0
      "Offscreen \<lparr>size_mg = (Fin 400, Fin 200), matrix_mg = identity_m, cmds = []\<rparr>"
      "init (Fin 200, Fin 100)"]
    drawStuff_rectangle_logical [of env0 Screen "init (Fin 200, Fin 100)"]
  by (auto simp: init_def js_sub_def)

text \<open>
  Claim C6. Whatever matrix the target context has when \<^verbatim>\<open>drawStuff\<close> is entered, it has
  the same matrix when \<^verbatim>\<open>drawStuff\<close> returns. Among the calls of the routine there is
  \<^verbatim>\<open>set_matrix\<close> with the matrix saved on entry, and no \<^verbatim>\<open>identity_matrix\<close>.
\<close>

theorem drawStuff_restores_matrix:
  "matrix_mg (deref (drawStuff e mg st)) = matrix_mg (deref (mg, st)) \<and>
   SetMatrix (matrix_mg (deref (mg, st)))
     \<in> set (drop (length (cmds (deref (mg, st)))) (cmds (deref (drawStuff e mg st)))) \<and>
   IdentityMatrix
     \<notin> set (drop (length (cmds (deref (mg, st)))) (cmds (deref (drawStuff e mg st))))"
proof (cases mg)
  case Screen
  with drawStuff_Screen [of e st] show ?thesis by auto
next
  case (Offscreen c)
  with drawStuff_Offscreen [of e c st] show ?thesis by auto
qed

theorem drawStuff_restores_matrix_witness:
  "matrix_mg (deref (drawStuff env0
      (Offscreen \<lparr>size_mg = (Fin 400, Fin 200),
         matrix_mg = scale_m (Fin 2) (Fin 2) identity_m, cmds = [Scale (Fin 2) (Fin 2)]\<rparr>)
      (init (Fin 200, Fin 100))))
     = Matrix (Fin 2) (Fin 0) (Fin 0) (Fin 2) (Fin 0) (Fin 0)"
  using drawStuff_restores_matrix [of env0
      "Offscreen \<lparr>size_mg = (Fin 400, Fin 200),
         matrix_mg = scale_m (Fin 2) (Fin 2) identity_m, cmds = [Scale (Fin 2) (Fin 2)]\<rparr>"
      "init (Fin 200, Fin 100)"]
  by (simp add: scale_m_def identity_m_def)

section \<open>The handlers\<close>

text \<open>
  Claim C7 at the number NaN. \<^verbatim>\<open>msg_float\<close> constrains the scale with
  \<^verbatim>\<open>Math.max(0.125, Math.min(8, v))\<close>, and both functions return NaN for a NaN
  argument: \<^verbatim>\<open>msg_float(NaN)\<close> stores NaN, which is not in \<open>[0.125, 8]\<close>, and the next
  \<^verbatim>\<open>paint\<close> asks for an off-screen context of size \<open>(NaN, NaN)\<close>.
\<close>

theorem msg_float_NaN_not_clamped:
  "imgScale (msg_float NaN (init (Fin 200, Fin 100))) = NaN \<and>
   \<not> in_scale_range (imgScale (msg_float NaN (init (Fin 200, Fin 100)))) \<and>
   allocs (paint env0 (msg_float NaN (init (Fin 200, Fin 100)))) = [(NaN, NaN)]"
proof -
  let ?st = "msg_float NaN (init (Fin 200, Fin 100))"
  have f: "imgScale ?st = NaN" "useImage ?st" "cachedImg ?st = None" "allocs ?st = []"
    "size_mg (mgraphics ?st) = (Fin 200, Fin 100)"
    by (simp_all add: msg_float_def redraw_def init_def)
  show ?thesis
    using f by (simp add: paint_miss build_cache_fields in_scale_range_def)
qed

text \<open>
  For every number other than NaN the handler does what the claim says: it stores the
  number clamped into \<open>[0.125, 8]\<close> (the infinities clamp to the two bounds), \<^verbatim>\<open>msg_int\<close>
  does the same, 10 stores 8 and 0.01 stores 0.125, and nothing is sent to the host for an
  input out of range.
\<close>

lemma msg_float_clamps:
  assumes "v \<noteq> NaN"
  shows "imgScale (msg_float v st) =
           (case v of Fin x \<Rightarrow> Fin (max (1/8) (min 8 x)) | PInf \<Rightarrow> Fin 8
            | NInf \<Rightarrow> Fin (1/8) | NaN \<Rightarrow> NaN) \<and>
         in_scale_range (imgScale (msg_float v st)) \<and>
         imgScale (msg_int v st) = imgScale (msg_float v st) \<and>
         imgScale (msg_float (Fin 10) st) = Fin 8 \<and>
         imgScale (msg_float (Fin (1/100)) st) = Fin (1/8) \<and>
         outlets (msg_float v st) = outlets st"
  using assms
  by (cases v) (auto simp: msg_float_def msg_int_def redraw_def in_scale_range_def max_def min_def)

lemma hover_fields:
  "cachedImg (onidle st) = cachedImg st" "useImage (onidle st) = useImage st"
  "cachedImg (onidleout st) = cachedImg st" "useImage (onidleout st) = useImage st"
  "outlets (onidle st) = outlets st" "outlets (onidleout st) = outlets st"
  "allocs (onidle st) = allocs st" "allocs (onidleout st) = allocs st"
  by (simp_all add: onidle_def onidleout_def redraw_def)

text \<open>
  Claim C8. \<^verbatim>\<open>onidle\<close> sets the hover flag, \<^verbatim>\<open>onidleout\<close> clears it, each asks for a
  repaint and leaves \<^verbatim>\<open>cachedImg\<close> as it is. From every state the script reaches with a
  cached image, the sequence hover-enter, paint, hover-leave, paint runs the drawing
  routine not at all, makes no off-screen context, and ends with the same image.
\<close>

theorem hover_keeps_cache:
  "idle (onidle st) \<and> \<not> idle (onidleout st) \<and>
   redraws (onidle st) = Suc (redraws st) \<and> redraws (onidleout st) = Suc (redraws st) \<and>
   cachedImg (onidle st) = cachedImg st \<and> cachedImg (onidleout st) = cachedImg st \<and>
   (reachable e st \<longrightarrow> cachedImg st \<noteq> None \<longrightarrow>
      draw_count (paint e (onidleout (paint e (onidle st)))) = draw_count st \<and>
      allocs (paint e (onidleout (paint e (onidle st)))) = allocs st \<and>
      cachedImg (paint e (onidle st)) = cachedImg st \<and>
      cachedImg (paint e (onidleout (paint e (onidle st)))) = cachedImg st)"
proof -
  have a: "idle (onidle st) \<and> \<not> idle (onidleout st) \<and>
     redraws (onidle st) = Suc (redraws st) \<and> redraws (onidleout st) = Suc (redraws st) \<and>
     cachedImg (onidle st) = cachedImg st \<and> cachedImg (onidleout st) = cachedImg st"
    by (simp add: onidle_def onidleout_def redraw_def)
  have b: "draw_count (paint e (onidleout (paint e (onidle st)))) = draw_count st \<and>
      allocs (paint e (onidleout (paint e (onidle st)))) = allocs st \<and>
      cachedImg (paint e (onidle st)) = cachedImg st \<and>
      cachedImg (paint e (onidleout (paint e (onidle st)))) = cachedImg st"
    if r: "reachable e st" and c: "cachedImg st \<noteq> None"
  proof -
    from c obtain img where i: "cachedImg st = Some img" by auto
    from reachable_cache_inv [OF r] i have u: "useImage st"
      by (simp add: cache_inv_def)
    have u1: "useImage (onidle st)" and i1: "cachedImg (onidle st) = Some img"
      using u i by (simp_all add: hover_fields)
    have d1: "draw_count (paint e (onidle st)) = draw_count st"
      using draw_count_paint_hit [OF u1 i1, of e]
      by (simp add: draw_count_def hover_fields)
    let ?s2 = "onidleout (paint e (onidle st))"
    have u2: "useImage ?s2" and i2: "cachedImg ?s2 = Some img"
      using u1 i1 by (simp_all add: hover_fields paint_fields paint_hit)
    have d2: "draw_count (paint e ?s2) = draw_count (paint e (onidle st))"
      using draw_count_paint_hit [OF u2 i2, of e]
      by (simp add: draw_count_def hover_fields)
    show ?thesis
      using d1 d2 i paint_hit [OF u1 i1, of e] paint_hit [OF u2 i2, of e]
      by (simp add: hover_fields)
  qed
  from a b show ?thesis by blast
qed

theorem hover_keeps_cache_witness:
  "reachable env0 (paint env0 (init (Fin 200, Fin 100))) \<and>
   cachedImg (paint env0 (init (Fin 200, Fin 100))) \<noteq> None \<and>
   draw_count (paint env0 (onidleout (paint env0 (onidle (paint env0 (init (Fin 200, Fin 100)))))))
     = 1"
proof -
  have r: "reachable env0 (paint env0 (init (Fin 200, Fin 100)))"
    by (intro reachable.intros)
  have c: "cachedImg (paint env0 (init (Fin 200, Fin 100))) \<noteq> None"
    by (simp add: init_paint_image)
  have i: "useImage (init (Fin 200, Fin 100))" "cachedImg (init (Fin 200, Fin 100)) = None"
    "draw_count (init (Fin 200, Fin 100)) = 0"
    by (simp_all add: init_def draw_count_def)
  have d: "draw_count (paint env0 (init (Fin 200, Fin 100))) = 1"
    using draw_count_paint_miss [OF i(1,2), of env0] i(3) by simp
  show ?thesis
    using r c d hover_keeps_cache [of "paint env0 (init (Fin 200, Fin 100))" env0]
    by simp
qed

lemma js_eq_zero: "js_eq x (Fin 0) = (x = Fin 0)"
  by (cases x) simp_all

text \<open>
  Claim C10. For every argument \<open>v\<close>, \<^verbatim>\<open>direct_draw(v)\<close> selects cached mode exactly
  when \<^verbatim>\<open>parseInt(v)\<close> is \<open>0\<close>; when \<^verbatim>\<open>parseInt(v)\<close> is NaN, as it is for an
  argument with no numeric prefix, direct drawing is selected; in every case
  \<^verbatim>\<open>cachedImg\<close> is cleared and a repaint is requested. The statement holds for every
  \<^verbatim>\<open>parseInt\<close>; its instance below is at the ECMAScript one.
\<close>

theorem direct_draw_mode:
  "useImage (direct_draw e v st) = (parseInt e v = Fin 0) \<and>
   (parseInt e v = NaN \<longrightarrow> \<not> useImage (direct_draw e v st)) \<and>
   cachedImg (direct_draw e v st) = None \<and>
   redraws (direct_draw e v st) = Suc (redraws st)"
  by (auto simp: direct_draw_def redraw_def js_eq_zero)

lemma parseInt_abc: "parseInt_str ''abc'' = NaN"
  by (simp add: parseInt_str_def is_ws_def digit_of_def)

lemma parseInt_0: "parseInt_str ''0'' = Fin 0"
  by (simp add: parseInt_str_def is_ws_def digit_of_def)

lemma parseInt_1: "parseInt_str ''1'' = Fin 1"
  by (simp add: parseInt_str_def is_ws_def digit_of_def)

theorem direct_draw_mode_witness:
  "parseInt env0 (JStr ''abc'') = NaN \<and>
   \<not> useImage (direct_draw env0 (JStr ''abc'') (init (Fin 200, Fin 100))) \<and>
   useImage (direct_draw env0 (JStr ''0'') (init (Fin 200, Fin 100))) \<and>
   \<not> useImage (direct_draw env0 (JStr ''1'') (init (Fin 200, Fin 100)))"
  using direct_draw_mode [of env0 "JStr ''abc''" "init (Fin 200, Fin 100)"]
    direct_draw_mode [of env0 "JStr ''0''" "init (Fin 200, Fin 100)"]
    direct_draw_mode [of env0 "JStr ''1''" "init (Fin 200, Fin 100)"]
  by (simp add: env0_def parseInt_abc parseInt_0 parseInt_1)

text \<open>A string with no decimal digit in it has no numeric prefix: its \<^verbatim>\<open>parseInt\<close> is NaN.\<close>

lemma parse_digits_no_digit:
  assumes "\<forall>c\<in>set s. \<forall>d. digit_of c = Some d \<longrightarrow> 10 \<le> d"
  shows "parse_digits 10 s None = None"
  using assms by (cases s) (auto split: option.splits)

lemma digit_of_zero: "digit_of CHR ''0'' = Some 0"
  by (simp add: digit_of_def)

lemma sign_rest_subset:
  "(case s1 of [] \<Rightarrow> (1::real, s1)
    | c # t \<Rightarrow> if c = CHR ''-'' then (- 1, t)
              else if c = CHR ''+'' then (1, t) else (1, s1)) = (sign, s2) \<Longrightarrow>
   set s2 \<subseteq> set s1"
  by (cases s1) (auto split: if_splits)

lemma parseInt_str_no_digit:
  assumes "\<forall>c\<in>set s. \<forall>d. digit_of c = Some d \<longrightarrow> 10 \<le> d"
  shows "parseInt_str s = NaN"
proof -
  let ?s1 = "dropWhile is_ws s"
  have s1: "\<forall>c\<in>set ?s1. \<forall>d. digit_of c = Some d \<longrightarrow> 10 \<le> d"
    using assms set_dropWhileD by fastforce
  obtain sign s2 where p: "(case ?s1 of
                          [] \<Rightarrow> (1::real, ?s1)
                        | c # t \<Rightarrow> if c = CHR ''-'' then (- 1, t)
                                   else if c = CHR ''+'' then (1, t) else (1, ?s1)) = (sign, s2)"
    by (cases "(case ?s1 of
                          [] \<Rightarrow> (1::real, ?s1)
                        | c # t \<Rightarrow> if c = CHR ''-'' then (- 1, t)
                                   else if c = CHR ''+'' then (1, t) else (1, ?s1))") auto
  have "set s2 \<subseteq> set ?s1"
    using p by (rule sign_rest_subset)
  with s1 have s2: "\<forall>c\<in>set s2. \<forall>d. digit_of c = Some d \<longrightarrow> 10 \<le> d"
    by blast
  have z: "\<And>x t. s2 \<noteq> CHR ''0'' # x # t"
    using s2 digit_of_zero by fastforce
  have r: "(case s2 of
                       c # x # t \<Rightarrow>
                         if c = CHR ''0'' \<and> (x = CHR ''x'' \<or> x = CHR ''X'') then (16::nat, t)
                         else (10, s2)
                     | _ \<Rightarrow> (10, s2)) = (10, s2)"
    using z by (auto split: list.splits)
  show ?thesis
    using p r parse_digits_no_digit [OF s2]
    by (simp add: parseInt_str_def Let_def)
qed

lemma direct_draw_no_digit:
  assumes "parseInt e = parseInt_js"
    and "\<forall>c\<in>set s. \<forall>d. digit_of c = Some d \<longrightarrow> 10 \<le> d"
  shows "\<not> useImage (direct_draw e (JStr s) st)"
  using assms parseInt_str_no_digit [of s]
  by (simp add: direct_draw_def redraw_def)

section \<open>A paint on a surface of non-positive size\<close>









end
